theory Spec2Isabelle
  imports Complex_Main "HOL-Library.Word"
begin

unbundle bit_operations_syntax

section \<open>Results of operations\<close>

text \<open>
  The C++ code has no exceptions; what can go wrong is undefined behaviour: an
  iterator moved outside its array or a cell read there. Every such place is a
  branch of the model that returns \<open>Inl OutOfBounds\<close>. A loop that does not
  return has the value \<open>None\<close>.
\<close>

datatype error = OutOfBounds

section \<open>Detail::PageBlockInfo\<close>

text \<open>
  A cell of a page's directory. \<open>myPrev\<close> is a pointer to another cell of the same
  directory, kept as that cell's index (\<open>None\<close> is \<open>nullptr\<close>); \<open>mySize\<close> is
  the \<open>ptrdiff_t\<close> holding the size and, as its sign, the state.
\<close>

record PageBlockInfo =
  myPrev :: "nat option"
  mySize :: int

definition default_info :: PageBlockInfo where
  "default_info = \<lparr>myPrev = None, mySize = 0\<rparr>"

definition to_ptrdiff :: "nat \<Rightarrow> int" where
  \<comment> \<open>\<open>static_cast<ptrdiff_t>(size)\<close> of a 64-bit \<open>size_t\<close>\<close>
  "to_ptrdiff n = sint (word_of_nat n :: 64 word)"

definition make_head :: "bool \<Rightarrow> nat \<Rightarrow> PageBlockInfo \<Rightarrow> PageBlockInfo" where
  "make_head free sz c = c\<lparr>mySize := (if free then to_ptrdiff sz else - to_ptrdiff sz)\<rparr>"

definition remove_head :: "PageBlockInfo \<Rightarrow> PageBlockInfo" where
  "remove_head c = c\<lparr>mySize := 0, myPrev := None\<rparr>"

definition set_prev :: "nat option \<Rightarrow> PageBlockInfo \<Rightarrow> PageBlockInfo" where
  \<comment> \<open>both overloads of \<open>prev(info)\<close> that store a link\<close>
  "set_prev p c = c\<lparr>myPrev := p\<rparr>"

definition size_info :: "PageBlockInfo \<Rightarrow> nat" where
  \<comment> \<open>\<open>size()\<close>\<close>
  "size_info c = (if mySize c \<ge> 0 then nat (mySize c) else nat (- mySize c))"

definition is_free :: "PageBlockInfo \<Rightarrow> bool" where
  "is_free c = (mySize c > 0)"

section \<open>Memory::Page\<close>

text \<open>
  The template arguments of \<open>Page<_Size, _Alignment>\<close>, and what the code uses
  of the element type \<open>_Ty\<close> of a request.
\<close>

record geometry =
  Size :: nat
  Alignment :: nat

record elem_type =
  sizeof :: nat
  alignof :: nat



definition blocks_count :: "geometry \<Rightarrow> nat" where
  "blocks_count g = Size g div Alignment g"

text \<open>
  An iterator into a directory: the array it ranges over, named by the address
  of its page's buffer, and the index of the cell.
\<close>

type_synonym iterator = "nat \<times> nat"

datatype Hint = Hint (myIter: iterator) (myEnd: "iterator option")

definition Hint_end :: "iterator \<Rightarrow> Hint" where
  \<comment> \<open>the constructor \<open>Hint(iterator end)\<close>\<close>
  "Hint_end e = Hint e (Some e)"


definition is_valid :: "Hint \<Rightarrow> bool" where
  "is_valid h = (case myEnd h of Some e \<Rightarrow> myIter h \<noteq> e | None \<Rightarrow> False)"

definition is_valid_for :: "Hint \<Rightarrow> iterator \<Rightarrow> bool" where
  \<comment> \<open>\<open>is_valid(trueEnd)\<close>\<close>
  "is_valid_for h trueEnd =
     (case myEnd h of Some e \<Rightarrow> e = trueEnd \<and> myIter h \<noteq> e | None \<Rightarrow> False)"

text \<open>
  A page: \<open>myData\<close> is the address of the byte buffer (the code never reads or
  writes the bytes), \<open>myInfo\<close> the directory, \<open>myLoad\<close> the gauge. The gauge is a
  \<open>float\<close> in the source; the model keeps the number it denotes and does not
  round.
\<close>

record Page =
  myData :: nat
  myInfo :: "PageBlockInfo list"
  myLoad :: real

definition info_end :: "Page \<Rightarrow> iterator" where
  \<comment> \<open>\<open>myInfo.end()\<close>\<close>
  "info_end p = (myData p, length (myInfo p))"

definition size_in_blocks :: "geometry \<Rightarrow> elem_type \<Rightarrow> nat \<Rightarrow> nat" where
  "size_in_blocks g t count =
     unat ((word_of_nat (sizeof t) * word_of_nat count + word_of_nat (Alignment g) - 1)
           AND NOT (word_of_nat (Alignment g) - 1) :: 64 word)"

definition from_hint :: "Page \<Rightarrow> Hint \<Rightarrow> error + nat" where
  \<comment> \<open>the index of the iterator returned; \<open>length (myInfo p)\<close> is \<open>myInfo.end()\<close>.
      Subtracting iterators of different arrays is undefined.\<close>
  "from_hint p h =
     (if is_valid_for h (info_end p)
      then (if fst (myIter h) = myData p \<and> snd (myIter h) < length (myInfo p)
            then Inr (snd (myIter h)) else Inl OutOfBounds)
      else Inr (length (myInfo p)))"

definition new_Page :: "geometry \<Rightarrow> nat \<Rightarrow> Page" where
  \<comment> \<open>the constructor, for a page whose buffer is at address \<open>addr\<close>\<close>
  "new_Page g addr =
     \<lparr>myData = addr,
      myInfo = (replicate (blocks_count g) default_info)
                 [0 := make_head True (blocks_count g) default_info],
      myLoad = 0\<rparr>"

definition load_of :: "geometry \<Rightarrow> elem_type \<Rightarrow> nat \<Rightarrow> real" where
  "load_of g t count = (real (sizeof t) / real (Size g)) * real count"

definition max_load :: real where
  "max_load = 1"

definition load :: "Page \<Rightarrow> real" where
  "load p = myLoad p"

partial_function (option) fit_loop ::
  "PageBlockInfo list \<Rightarrow> nat \<Rightarrow> nat \<Rightarrow> (error + nat) option" where
  "fit_loop info blocks iter =
     (if iter = length info then Some (Inr (length info))
      else if length info < iter then Some (Inl OutOfBounds)
      else let sz = size_info (info ! iter) in
        if is_free (info ! iter) \<and> blocks \<le> sz then Some (Inr iter)
        else fit_loop info blocks (iter + sz))"

declare fit_loop.simps [code]

definition fit :: "geometry \<Rightarrow> elem_type \<Rightarrow> Page \<Rightarrow> nat \<Rightarrow> (error + Hint) option" where
  "fit g t p count =
     (if alignof t \<le> Alignment g
      then (case fit_loop (myInfo p) (size_in_blocks g t count) 0 of
              None \<Rightarrow> None
            | Some (Inl e) \<Rightarrow> Some (Inl e)
            | Some (Inr iter) \<Rightarrow>
                Some (Inr (if iter = length (myInfo p) then Hint_end (info_end p)
                           else Hint (myData p, iter) (Some (info_end p)))))
      else Some (Inr (Hint_end (info_end p))))"

definition contains :: "geometry \<Rightarrow> elem_type \<Rightarrow> Page \<Rightarrow> nat \<Rightarrow> nat \<Rightarrow> error + Hint" where
  "contains g t p data count =
     (if alignof t \<le> Alignment g
      then (let storageBegin = myData p;
                storageEnd = storageBegin + Size g;
                dataBegin = data;
                dataEnd = data + count * sizeof t
            in if dataBegin \<ge> storageBegin \<and> dataEnd \<le> storageEnd
                  \<and> dataBegin mod Alignment g = 0
               then (let offset = (dataBegin - storageBegin) div Alignment g;
                         blocks = size_in_blocks g t count;
                         iter = offset
                     in if length (myInfo p) \<le> iter then Inl OutOfBounds
                        else if \<not> is_free (myInfo p ! iter) \<and> size_info (myInfo p ! iter) = blocks
                        then Inr (Hint (myData p, iter) (Some (info_end p)))
                        else Inr (Hint_end (info_end p)))
               else Inr (Hint_end (info_end p)))
      else Inr (Hint_end (info_end p)))"

text \<open>
  \<open>try_occupy(count, hint)\<close>. The result is the pointer (an address, \<open>None\<close> for
  \<open>nullptr\<close>) and the page after the call. \<open>iter + blocks\<close> is only computed when
  \<open>size > blocks\<close>; it is undefined when it leaves the array.
\<close>

definition try_occupy_hint ::
  "geometry \<Rightarrow> elem_type \<Rightarrow> Page \<Rightarrow> nat \<Rightarrow> Hint \<Rightarrow> error + (nat option \<times> Page)" where
  "try_occupy_hint g t p count hint =
     (let blocks = size_in_blocks g t count in
      case from_hint p hint of
        Inl e \<Rightarrow> Inl e
      | Inr iter \<Rightarrow>
          if iter \<noteq> length (myInfo p)
          then (let info = myInfo p;
                    sz = size_info (info ! iter);
                    next = iter + blocks
                in if blocks < sz \<and> length info < next then Inl OutOfBounds
                   else
                    (let info1 = (if blocks < sz \<and> next \<noteq> length info
                                  then info[next := set_prev (Some iter)
                                                     (make_head True (sz - blocks) (info ! next))]
                                  else info);
                         load1 = myLoad p + real blocks / real (blocks_count g);
                         info2 = info1[iter := make_head False blocks (info1 ! iter)];
                         offset = iter
                     in Inr (Some (myData p + offset * Alignment g),
                             p\<lparr>myInfo := info2, myLoad := load1\<rparr>)))
          else Inr (None, p))"

definition try_occupy ::
  "geometry \<Rightarrow> elem_type \<Rightarrow> Page \<Rightarrow> nat \<Rightarrow> (error + (nat option \<times> Page)) option" where
  "try_occupy g t p count =
     (case fit g t p count of
        None \<Rightarrow> None
      | Some (Inl e) \<Rightarrow> Some (Inl e)
      | Some (Inr hint) \<Rightarrow> Some (try_occupy_hint g t p count hint))"

text \<open>
  \<open>release(hint)\<close>, statement by statement: each cell is read from the directory
  as the statements before it left it, so that cells that coincide (a backward
  link to the cell itself, for one) behave as in the source. The two coalescing
  blocks of the function are \<open>coalesce_right\<close> and \<open>coalesce_left\<close>; the first
  hands the directory, the local \<open>size\<close> and the local \<open>farNext\<close> to the second.
\<close>

definition coalesce_right ::
  "PageBlockInfo list \<Rightarrow> nat \<Rightarrow> nat \<Rightarrow> error + (PageBlockInfo list \<times> nat \<times> nat)" where
  "coalesce_right info iter sz =
     (let n = length info; next = iter + sz in
      if n < next then Inl OutOfBounds
      else if next \<noteq> n \<and> is_free (info ! next)
      then (let nextSize = size_info (info ! next);
                farNext = next + nextSize
            in if n < farNext then Inl OutOfBounds
               else
                (let info1 = (if farNext \<noteq> n
                              then info[farNext := set_prev (Some iter) (info ! farNext)]
                              else info);
                     info2 = info1[iter := make_head True (sz + nextSize) (info1 ! iter)];
                     info3 = info2[next := remove_head (info2 ! next)]
                 in Inr (info3, sz + nextSize, farNext)))
      else Inr (info, sz, n))"

definition coalesce_left ::
  "PageBlockInfo list \<Rightarrow> nat option \<Rightarrow> nat \<Rightarrow> nat \<Rightarrow> nat \<Rightarrow> error + PageBlockInfo list" where
  "coalesce_left info prev iter sz farNext =
     (case prev of
        None \<Rightarrow> Inr info
      | Some pr \<Rightarrow>
          if length info \<le> pr then Inl OutOfBounds
          else if is_free (info ! pr)
          then (let info1 = info[pr := make_head True (sz + size_info (info ! pr)) (info ! pr)];
                    info2 = info1[iter := remove_head (info1 ! iter)];
                    info3 = (if farNext \<noteq> length info
                             then info2[farNext := set_prev (Some pr) (info2 ! farNext)]
                             else info2)
                in Inr info3)
          else Inr info)"

definition release_hint :: "geometry \<Rightarrow> Page \<Rightarrow> Hint \<Rightarrow> error + (bool \<times> Page)" where
  "release_hint g p hint =
     (case from_hint p hint of
        Inl e \<Rightarrow> Inl e
      | Inr iter \<Rightarrow>
          if iter \<noteq> length (myInfo p)
          then (let info = myInfo p;
                    sz = size_info (info ! iter);
                    prev = myPrev (info ! iter);
                    load1 = myLoad p - real sz / real (blocks_count g);
                    info1 = info[iter := make_head True sz (info ! iter)]
                in case coalesce_right info1 iter sz of
                     Inl e \<Rightarrow> Inl e
                   | Inr (info2, sz2, farNext) \<Rightarrow>
                       (case coalesce_left info2 prev iter sz2 farNext of
                          Inl e \<Rightarrow> Inl e
                        | Inr info3 \<Rightarrow> Inr (True, p\<lparr>myInfo := info3, myLoad := load1\<rparr>)))
          else Inr (False, p))"

definition release :: "geometry \<Rightarrow> elem_type \<Rightarrow> Page \<Rightarrow> nat \<Rightarrow> nat \<Rightarrow> error + (bool \<times> Page)" where
  \<comment> \<open>\<open>release(ptr, count)\<close>\<close>
  "release g t p ptr count =
     (case contains g t p ptr count of
        Inl e \<Rightarrow> Inl e
      | Inr hint \<Rightarrow> release_hint g p hint)"

section \<open>Memory::Pool\<close>

text \<open>
  \<open>myPages\<close> is a \<open>std::multimap<float, std::unique_ptr<page_type>>\<close>: the model
  keeps its entries in iteration order, ascending by key. An iterator of the
  multimap is the index of its entry, and the length of the list is \<open>end()\<close>.
  The mutexes are not modelled: every operation below runs alone.
\<close>

record Pool =
  myPages :: "(real \<times> Page) list"
  myAverageLoadRequest :: real
  myRequestsCount :: nat

definition new_Pool :: Pool where
  "new_Pool = \<lparr>myPages = [], myAverageLoadRequest = 0, myRequestsCount = 0\<rparr>"

fun upper_bound :: "'k::linorder \<Rightarrow> ('k \<times> 'v) list \<Rightarrow> nat" where
  \<comment> \<open>the first entry whose key is greater than \<open>k\<close>\<close>
  "upper_bound k [] = 0"
| "upper_bound k (e # es) = (if k < fst e then 0 else Suc (upper_bound k es))"

fun lower_bound :: "'k::linorder \<Rightarrow> ('k \<times> 'v) list \<Rightarrow> nat" where
  \<comment> \<open>the first entry whose key is not less than \<open>k\<close>\<close>
  "lower_bound k [] = 0"
| "lower_bound k (e # es) = (if k \<le> fst e then 0 else Suc (lower_bound k es))"

definition extract_entry :: "nat \<Rightarrow> 'a list \<Rightarrow> 'a list" where
  \<comment> \<open>the entries left after \<open>extract(iter)\<close>\<close>
  "extract_entry i es = take i es @ drop (Suc i) es"

definition emplace_hint :: "nat \<Rightarrow> 'k::linorder \<Rightarrow> 'v \<Rightarrow> ('k \<times> 'v) list \<Rightarrow> ('k \<times> 'v) list" where
  \<comment> \<open>a multimap inserts the entry as close as possible to the position just before
      \<open>hint\<close>: there if the order allows it, else at the nearer end of the run of
      equal keys\<close>
  "emplace_hint hint k v es =
     (let pos = max (lower_bound k es) (min hint (upper_bound k es))
      in take pos es @ [(k, v)] @ drop pos es)"

fun make_pages :: "geometry \<Rightarrow> nat list \<Rightarrow> Pool \<Rightarrow> Pool" where
  \<comment> \<open>\<open>make_pages(count)\<close>, given the addresses of the buffers of the \<open>count\<close> pages
      that \<open>make_unique\<close> allocates, in order\<close>
  "make_pages g [] pool = pool"
| "make_pages g (addr # addrs) pool =
     (let page = new_Page g addr;
          ld = load page
      in make_pages g addrs (pool\<lparr>myPages := emplace_hint 0 ld page (myPages pool)\<rparr>))"

definition select_page :: "geometry \<Rightarrow> elem_type \<Rightarrow> Pool \<Rightarrow> nat \<Rightarrow> nat option" where
  \<comment> \<open>the entry that \<open>occupy\<close> extracts, if any: \<open>--iter\<close> of the upper bound\<close>
  "select_page g t pool count =
     (let ld = load_of g t count in
      if myPages pool \<noteq> []
      then (let iter = upper_bound (max_load - ld) (myPages pool)
            in if iter = 0 then None else Some (iter - 1))
      else None)"

definition record_request :: "real \<Rightarrow> Pool \<Rightarrow> Pool" where
  \<comment> \<open>the second locked block of \<open>occupy\<close>; the product reads the count before
      \<open>++myRequestsCount\<close> changes it (the source leaves the two unsequenced)\<close>
  "record_request ld pool =
     pool\<lparr>myAverageLoadRequest :=
            (myAverageLoadRequest pool * real (myRequestsCount pool) + ld)
              / real (Suc (myRequestsCount pool)),
          myRequestsCount := Suc (myRequestsCount pool)\<rparr>"

text \<open>
  \<open>Pool::occupy\<close>. After \<open>extract(--iter)\<close> the iterator \<open>hint\<close> still names the
  entry that followed the extracted one, which now has index \<open>iter - 1\<close>, so
  \<open>++hint\<close> has index \<open>iter\<close> in the remaining entries. When \<open>hint\<close> is \<open>end()\<close>
  the increment is undefined. The key of the entry put back is the local
  \<open>load\<close>, read from the page before \<open>try_occupy\<close> runs.
\<close>

definition occupy ::
  "geometry \<Rightarrow> elem_type \<Rightarrow> Pool \<Rightarrow> nat \<Rightarrow> (error + (nat option \<times> Pool)) option" where
  "occupy g t pool count =
     (let ld = load_of g t count in
      case select_page g t pool count of
        None \<Rightarrow> Some (Inr (None, record_request ld pool))
      | Some i \<Rightarrow>
          (let hint = Suc i;
               page = snd (myPages pool ! i);
               rest = extract_entry i (myPages pool);
               ld0 = load page
           in case try_occupy g t page count of
                None \<Rightarrow> None
              | Some (Inl e) \<Rightarrow> Some (Inl e)
              | Some (Inr (ptr, page')) \<Rightarrow>
                  if hint = length (myPages pool) then Some (Inl OutOfBounds)
                  else Some (Inr (ptr, record_request ld
                          (pool\<lparr>myPages := emplace_hint hint ld0 page' rest\<rparr>)))))"

section \<open>Sequences of requests on one page\<close>

text \<open>
  A caller of one page: each request, what it returned, and the page after the
  last one.
\<close>

datatype page_op = Occupy nat | Release nat nat

datatype outcome = Pointer "nat option" | Released bool

fun apply_op ::
  "geometry \<Rightarrow> elem_type \<Rightarrow> Page \<Rightarrow> page_op \<Rightarrow> (error + (outcome \<times> Page)) option" where
  "apply_op g t p (Occupy count) =
     (case try_occupy g t p count of
        None \<Rightarrow> None
      | Some (Inl e) \<Rightarrow> Some (Inl e)
      | Some (Inr (ptr, p')) \<Rightarrow> Some (Inr (Pointer ptr, p')))"
| "apply_op g t p (Release ptr count) =
     (case release g t p ptr count of
        Inl e \<Rightarrow> Some (Inl e)
      | Inr (ok, p') \<Rightarrow> Some (Inr (Released ok, p')))"

fun apply_ops ::
  "geometry \<Rightarrow> elem_type \<Rightarrow> Page \<Rightarrow> page_op list \<Rightarrow> (error + (outcome list \<times> Page)) option" where
  "apply_ops g t p [] = Some (Inr ([], p))"
| "apply_ops g t p (x # xs) =
     (case apply_op g t p x of
        None \<Rightarrow> None
      | Some (Inl e) \<Rightarrow> Some (Inl e)
      | Some (Inr (r, p')) \<Rightarrow>
          (case apply_ops g t p' xs of
             None \<Rightarrow> None
           | Some (Inl e) \<Rightarrow> Some (Inl e)
           | Some (Inr (rs, p'')) \<Rightarrow> Some (Inr (r # rs, p''))))"


text \<open>
  The scan of the run heads, as \<open>fit\<close> walks them: from a head to the cell its
  size leads to. It stops at the end of the directory and at a cell of size 0,
  where the walk would not advance.
\<close>

function run_heads :: "PageBlockInfo list \<Rightarrow> nat \<Rightarrow> nat list" where
  "run_heads info iter =
     (if iter < length info \<and> 0 < size_info (info ! iter)
      then iter # run_heads info (iter + size_info (info ! iter))
      else [])"
  by pat_completeness auto
termination
  by (relation "measure (\<lambda>(info, iter). length info - iter)") auto

fun both_free_in_a_row :: "PageBlockInfo list \<Rightarrow> nat list \<Rightarrow> bool" where
  "both_free_in_a_row info (i # j # js) =
     ((is_free (info ! i) \<and> is_free (info ! j)) \<or> both_free_in_a_row info (j # js))"
| "both_free_in_a_row info js = False"

definition run_sizes_sum :: "PageBlockInfo list \<Rightarrow> nat" where
  "run_sizes_sum info = sum_list (map (\<lambda>i. size_info (info ! i)) (run_heads info 0))"

definition cell_sizes_sum :: "PageBlockInfo list \<Rightarrow> nat" where
  "cell_sizes_sum info = sum_list (map size_info info)"

text \<open>
  The block count that the specification asks for: the bytes of the request
  divided by the alignment, rounded up.
\<close>

definition required_blocks_spec :: "geometry \<Rightarrow> elem_type \<Rightarrow> nat \<Rightarrow> nat" where
  "required_blocks_spec g t count = (sizeof t * count + Alignment g - 1) div Alignment g"

section \<open>Page states\<close>



section \<open>Example instances\<close>

definition page_3_1 :: geometry where
  "page_3_1 = \<lparr>Size = 3, Alignment = 1\<rparr>"

definition page_4_1 :: geometry where
  "page_4_1 = \<lparr>Size = 4, Alignment = 1\<rparr>"

definition page_8_2 :: geometry where
  "page_8_2 = \<lparr>Size = 8, Alignment = 2\<rparr>"

definition page_20_1 :: geometry where
  "page_20_1 = \<lparr>Size = 20, Alignment = 1\<rparr>"

definition char_type :: elem_type where
  "char_type = \<lparr>sizeof = 1, alignof = 1\<rparr>"

definition half_page :: Page where
  \<comment> \<open>a page of four blocks after two of them were occupied\<close>
  "half_page =
     \<lparr>myData = 0,
      myInfo = [\<lparr>myPrev = None, mySize = - 2\<rparr>, \<lparr>myPrev = None, mySize = 0\<rparr>,
                \<lparr>myPrev = Some 0, mySize = 2\<rparr>, \<lparr>myPrev = None, mySize = 0\<rparr>],
      myLoad = 1 / 2\<rparr>"


definition loaded_page :: "nat \<Rightarrow> nat \<Rightarrow> Page" where
  \<comment> \<open>a page of twenty blocks at \<open>addr\<close> with the first \<open>k\<close> occupied by one request\<close>
  "loaded_page addr k =
     \<lparr>myData = addr,
      myInfo = (replicate 20 default_info)
                 [0 := \<lparr>myPrev = None, mySize = - int k\<rparr>,
                  k := \<lparr>myPrev = Some 0, mySize = 20 - int k\<rparr>],
      myLoad = real k / 20\<rparr>"


definition two_pages :: Pool where
  \<comment> \<open>a fresh page and a page with half of its blocks occupied, each under its load\<close>
  "two_pages =
     \<lparr>myPages = [(0, new_Page page_4_1 64), (1 / 2, half_page)],
      myAverageLoadRequest = 0, myRequestsCount = 0\<rparr>"

section \<open>Cells and sizes\<close>






lemma size_set_prev [simp]: "size_info (set_prev q c) = size_info c"
  by (simp add: size_info_def set_prev_def)

lemma is_free_set_prev [simp]: "is_free (set_prev q c) = is_free c"
  by (simp add: is_free_def set_prev_def)

lemma myPrev_set_prev [simp]: "myPrev (set_prev q c) = q"
  by (simp add: set_prev_def)

lemma size_remove_head [simp]: "size_info (remove_head c) = 0"
  by (simp add: size_info_def remove_head_def)

lemma is_free_remove_head [simp]: "is_free (remove_head c) = False"
  by (simp add: is_free_def remove_head_def)




section \<open>Hints and the search\<close>





section \<open>Occupying a run that was found\<close>


section \<open>Releasing a head\<close>






section \<open>The upper bound of a key\<close>





section \<open>The example instances\<close>


text \<open>The pages of \<open>three_pages\<close> are fresh pages after one request each.\<close>

lemma loaded_pages_reached:
  "try_occupy page_20_1 char_type (new_Page page_20_1 0) 2
     = Some (Inr (Some 0, loaded_page 0 2))"
  "try_occupy page_20_1 char_type (new_Page page_20_1 32) 8
     = Some (Inr (Some 32, loaded_page 32 8))"
  "try_occupy page_20_1 char_type (new_Page page_20_1 64) 16
     = Some (Inr (Some 64, loaded_page 64 16))"
  by code_simp+

section \<open>The required size and the search\<close>

text \<open>
  C1. \<open>fit\<close> is to compute the required number of blocks as the bytes of the
  request divided by the alignment, rounded up, and to return a Hint to the
  first free run of at least that many blocks. \<open>size_in_blocks\<close> rounds the bytes
  up to a multiple of the alignment and does not divide: on a fresh page of 8
  bytes in 4 blocks of 2 bytes, a request of 5 one-byte elements needs 3 blocks,
  \<open>size_in_blocks\<close> gives 6, and \<open>fit\<close> returns the invalid Hint although the
  first run is free and has 4 blocks.
\<close>

theorem fit_counts_bytes_not_blocks:
  "required_blocks_spec page_8_2 char_type 5 = 3
   \<and> size_in_blocks page_8_2 char_type 5 = 6
   \<and> blocks_count page_8_2 = 4
   \<and> is_free (myInfo (new_Page page_8_2 0) ! 0)
   \<and> size_info (myInfo (new_Page page_8_2 0) ! 0) = 4
   \<and> fit page_8_2 char_type (new_Page page_8_2 0) 5
       = Some (Inr (Hint_end (info_end (new_Page page_8_2 0))))
   \<and> is_valid (Hint_end (info_end (new_Page page_8_2 0))) = False"
  by code_simp

section \<open>The keys of the pool\<close>

text \<open>
  C2. After an \<open>occupy\<close> that selects a page, the entry of that page is to be
  put back under the load of the page as \<open>try_occupy\<close> left it. The code reads
  the load before it calls \<open>try_occupy\<close> and uses that number as the key. In
  \<open>two_pages\<close> every key is the load of its page; a request of 3 one-byte
  elements selects the fresh page, whose load becomes 3/4, and its entry is put
  back under the key 0.
\<close>

theorem occupy_reinserts_under_old_load:
  "load (snd (myPages two_pages ! 0)) = fst (myPages two_pages ! 0)
   \<and> load (snd (myPages two_pages ! 1)) = fst (myPages two_pages ! 1)
   \<and> select_page page_4_1 char_type two_pages 3 = Some 0
   \<and> occupy page_4_1 char_type two_pages 3
     = Some (Inr (Some 64,
          \<lparr>myPages = [(0, \<lparr>myData = 64,
                            myInfo = [\<lparr>myPrev = None, mySize = - 3\<rparr>,
                                      \<lparr>myPrev = None, mySize = 0\<rparr>,
                                      \<lparr>myPrev = None, mySize = 0\<rparr>,
                                      \<lparr>myPrev = Some 0, mySize = 1\<rparr>],
                            myLoad = 3 / 4\<rparr>),
                       (1 / 2, half_page)],
           myAverageLoadRequest = 3 / 4, myRequestsCount = 1\<rparr>))"
  by code_simp

text \<open>
  On the pool that \<open>make_pages(1)\<close> builds, the upper bound of every request that
  fits is \<open>end()\<close>, and \<open>occupy\<close> increments that iterator after \<open>try_occupy\<close> has
  run.
\<close>

lemma occupy_on_one_fresh_page:
  "make_pages page_4_1 [64] new_Pool
     = \<lparr>myPages = [(0, new_Page page_4_1 64)], myAverageLoadRequest = 0, myRequestsCount = 0\<rparr>
   \<and> occupy page_4_1 char_type (make_pages page_4_1 [64] new_Pool) 3 = Some (Inl OutOfBounds)"
  by code_simp

section \<open>Splitting, coalescing and the backward links\<close>

text \<open>
  C3. When \<open>try_occupy\<close> splits a free run, the run that follows the tail is to
  have its backward link moved to the new tail head. The code sets the link of
  the tail only. On a page of 3 blocks, after occupying 2, occupying 1 and
  releasing the first, the directory is a free run of 2 at cell 0 and an
  occupied run at cell 2 linked to cell 0. Occupying 1 block splits the free
  run; the tail head is cell 1, and cell 2 is still linked to cell 0.
\<close>

theorem split_leaves_link_of_following_run:
  "apply_ops page_3_1 char_type (new_Page page_3_1 0) [Occupy 2, Occupy 1, Release 0 2]
     = Some (Inr ([Pointer (Some 0), Pointer (Some 2), Released True],
                  \<lparr>myData = 0,
                   myInfo = [\<lparr>myPrev = None, mySize = 2\<rparr>, \<lparr>myPrev = None, mySize = 0\<rparr>,
                             \<lparr>myPrev = Some 0, mySize = - 1\<rparr>],
                   myLoad = 1 / 3\<rparr>))
   \<and> try_occupy_hint page_3_1 char_type
        \<lparr>myData = 0,
         myInfo = [\<lparr>myPrev = None, mySize = 2\<rparr>, \<lparr>myPrev = None, mySize = 0\<rparr>,
                   \<lparr>myPrev = Some 0, mySize = - 1\<rparr>],
         myLoad = 1 / 3\<rparr> 1 (Hint (0, 0) (Some (0, 3)))
     = Inr (Some 0,
            \<lparr>myData = 0,
             myInfo = [\<lparr>myPrev = None, mySize = - 1\<rparr>, \<lparr>myPrev = Some 0, mySize = 1\<rparr>,
                       \<lparr>myPrev = Some 0, mySize = - 1\<rparr>],
             myLoad = 2 / 3\<rparr>)"
  by code_simp

text \<open>
  C4. After a release no two consecutive runs are to be free. On a page of 3
  blocks, three requests of 1 block are released in the order of their
  addresses. The second release merges its run into the free run before it;
  the run after it keeps its backward link to the cell that was merged away,
  since \<open>release\<close> repoints the following run only when it also merged to the
  right. The third release therefore finds no free predecessor, and the scan
  ends with a free run of 2 blocks followed by a free run of 1. The same
  happens after a split (C3): there the released run at cell 2 is still linked
  to the occupied cell 0 and is not merged with the free tail at cell 1.
\<close>

theorem release_leaves_two_free_runs:
  "apply_ops page_3_1 char_type (new_Page page_3_1 0)
       [Occupy 1, Occupy 1, Occupy 1, Release 0 1, Release 1 1, Release 2 1]
     = Some (Inr ([Pointer (Some 0), Pointer (Some 1), Pointer (Some 2),
                   Released True, Released True, Released True],
                  \<lparr>myData = 0,
                   myInfo = [\<lparr>myPrev = None, mySize = 2\<rparr>, \<lparr>myPrev = None, mySize = 0\<rparr>,
                             \<lparr>myPrev = Some 1, mySize = 1\<rparr>],
                   myLoad = 0\<rparr>))
   \<and> run_heads [\<lparr>myPrev = None, mySize = 2\<rparr>, \<lparr>myPrev = None, mySize = 0\<rparr>,
                 \<lparr>myPrev = Some 1, mySize = 1\<rparr>] 0 = [0, 2]
   \<and> both_free_in_a_row [\<lparr>myPrev = None, mySize = 2\<rparr>, \<lparr>myPrev = None, mySize = 0\<rparr>,
                          \<lparr>myPrev = Some 1, mySize = 1\<rparr>] [0, 2]
   \<and> apply_ops page_3_1 char_type (new_Page page_3_1 0)
       [Occupy 2, Occupy 1, Release 0 2, Occupy 1, Release 2 1]
     = Some (Inr ([Pointer (Some 0), Pointer (Some 2), Released True, Pointer (Some 0),
                   Released True],
                  \<lparr>myData = 0,
                   myInfo = [\<lparr>myPrev = None, mySize = - 1\<rparr>, \<lparr>myPrev = Some 0, mySize = 1\<rparr>,
                             \<lparr>myPrev = Some 0, mySize = 1\<rparr>],
                   myLoad = 1 / 3\<rparr>))
   \<and> run_heads [\<lparr>myPrev = None, mySize = - 1\<rparr>, \<lparr>myPrev = Some 0, mySize = 1\<rparr>,
                 \<lparr>myPrev = Some 0, mySize = 1\<rparr>] 0 = [0, 1, 2]
   \<and> both_free_in_a_row [\<lparr>myPrev = None, mySize = - 1\<rparr>, \<lparr>myPrev = Some 0, mySize = 1\<rparr>,
                          \<lparr>myPrev = Some 0, mySize = 1\<rparr>] [0, 1, 2]"
  by code_simp

text \<open>
  C5. The sizes of the run heads are to sum to the number of blocks of the page
  after every sequence of requests. In the sequence below every request
  returns a pointer and every release is of a run that is occupied, with its
  own count. With the stale link of C3, the release of the run at cell 2
  merges it into the free run at cell 0 across the occupied run at cell 1; the
  next request splits that free run and writes a free head over cell 1. The
  sizes then sum to 2 on a page of 3 blocks, whether summed along the scan or
  over all cells.
\<close>

theorem sizes_not_conserved:
  "apply_ops page_3_1 char_type (new_Page page_3_1 0)
       [Occupy 2, Occupy 1, Release 0 2, Occupy 1, Occupy 1, Release 0 1, Release 2 1, Occupy 1]
     = Some (Inr ([Pointer (Some 0), Pointer (Some 2), Released True, Pointer (Some 0),
                   Pointer (Some 1), Released True, Released True, Pointer (Some 0)],
                  \<lparr>myData = 0,
                   myInfo = [\<lparr>myPrev = None, mySize = - 1\<rparr>, \<lparr>myPrev = Some 0, mySize = 1\<rparr>,
                             \<lparr>myPrev = None, mySize = 0\<rparr>],
                   myLoad = 2 / 3\<rparr>))
   \<and> run_sizes_sum [\<lparr>myPrev = None, mySize = - 1\<rparr>, \<lparr>myPrev = Some 0, mySize = 1\<rparr>,
                     \<lparr>myPrev = None, mySize = 0\<rparr>] = 2
   \<and> cell_sizes_sum [\<lparr>myPrev = None, mySize = - 1\<rparr>, \<lparr>myPrev = Some 0, mySize = 1\<rparr>,
                      \<lparr>myPrev = None, mySize = 0\<rparr>] = 2
   \<and> blocks_count page_3_1 = 3"
  by code_simp

section \<open>Occupy, then release\<close>





section \<open>The page that the pool selects\<close>



section \<open>Releases that do not resolve\<close>




section \<open>The load gauge\<close>

text \<open>
  C9 is about the rounding of the \<open>float\<close> gauge, which the model does not have.
  With the gauge as the number it denotes, \<open>round_trip_steps\<close> gives the two
  equations without rounding: \<open>try_occupy\<close> adds the share of the blocks it
  took, and the release of that run takes the same share away.
\<close>

section \<open>Hints are trusted\<close>

text \<open>
  C10. \<open>try_occupy(count, hint)\<close> checks of the hinted cell neither that it is
  free nor that it is large enough. On the page of four blocks with two
  occupied, the Hint that \<open>contains\<close> returns for the occupied run is accepted
  for a request of 1 block, and the Hint that \<open>fit\<close> returns for the free run of
  2 blocks is accepted for a request of 3 blocks: each time the head is
  rewritten as occupied with the requested size, the load grows by the
  requested share and the pointer is not null.
\<close>

theorem try_occupy_hint_unchecked:
  "apply_ops page_4_1 char_type (new_Page page_4_1 0) [Occupy 2]
     = Some (Inr ([Pointer (Some 0)], half_page))
   \<and> contains page_4_1 char_type half_page 0 2 = Inr (Hint (0, 0) (Some (0, 4)))
   \<and> is_valid_for (Hint (0, 0) (Some (0, 4))) (info_end half_page)
   \<and> is_free (myInfo half_page ! 0) = False
   \<and> try_occupy_hint page_4_1 char_type half_page 1 (Hint (0, 0) (Some (0, 4)))
       = Inr (Some 0,
              \<lparr>myData = 0,
               myInfo = [\<lparr>myPrev = None, mySize = - 1\<rparr>, \<lparr>myPrev = Some 0, mySize = 1\<rparr>,
                         \<lparr>myPrev = Some 0, mySize = 2\<rparr>, \<lparr>myPrev = None, mySize = 0\<rparr>],
               myLoad = 1 / 2 + 1 / 4\<rparr>)
   \<and> fit page_4_1 char_type half_page 1 = Some (Inr (Hint (0, 2) (Some (0, 4))))
   \<and> is_valid_for (Hint (0, 2) (Some (0, 4))) (info_end half_page)
   \<and> is_free (myInfo half_page ! 2)
   \<and> size_info (myInfo half_page ! 2) = 2
   \<and> size_in_blocks page_4_1 char_type 3 = 3
   \<and> try_occupy_hint page_4_1 char_type half_page 3 (Hint (0, 2) (Some (0, 4)))
       = Inr (Some 2,
              \<lparr>myData = 0,
               myInfo = [\<lparr>myPrev = None, mySize = - 2\<rparr>, \<lparr>myPrev = None, mySize = 0\<rparr>,
                         \<lparr>myPrev = Some 0, mySize = - 3\<rparr>, \<lparr>myPrev = None, mySize = 0\<rparr>],
               myLoad = 1 / 2 + 3 / 4\<rparr>)"
  by code_simp

end
